theory Spec2Isabelle
  imports Main "HOL-Library.Word" "HOL-Library.List_Lexorder"
begin

section \<open>Shared data of the packages\<close>

text \<open>
  Go's \<open>int64\<close> and \<open>uint64\<close> are 64-bit words (\<open>sint\<close> reads the signed value);
  the atomic additions of \<open>sync/atomic\<close> wrap around.  A \<open>[]byte\<close> is a list of 8-bit
  words, compared as \<open>bytes.Compare\<close> does: lexicographically on the unsigned byte values,
  a proper prefix before its extensions.  A Go \<open>string\<close> is the same byte sequence, so
  \<open>[]byte(s)\<close> and \<open>string(b)\<close> are the identity of the model; \<open>bytes_of\<close> spells a
  literal.  A Go \<open>error\<close> is modelled by its message, and \<open>nil\<close> is \<open>None\<close>.
\<close>

type_synonym int64 = "64 word"
type_synonym uint64 = "64 word"
type_synonym byte = "8 word"
type_synonym bytes = "byte list"
type_synonym err = string

definition bytes_of :: "string \<Rightarrow> bytes" where
  "bytes_of s = map of_char s"

text \<open>
  Modelled from the spec: the type \<open>common.UUID\<close> (package \<open>common\<close> is not part of the
  sources).  The values of a URI's sub-bucket are "16-byte UUIDs": a UUID is modelled by
  its bytes, and the conversions \<open>common.UUID(v)\<close>, \<open>Bytes()\<close> and
  \<open>common.UUIDFromBytes\<close> are the identity.
\<close>

type_synonym UUID = bytes

text \<open>
  Modelled from the spec: the type \<open>common.UnitOfTime\<close> (package \<open>common\<close> is not part
  of the sources).  The unit of time is a scale with a zero value that stands for no
  unit; the code converts a Go \<open>int\<close> to it and compares it with \<open>0\<close>.  It is a 64-bit
  word here and the conversion keeps the bits.  The constants \<open>UOT_NS\<close> and \<open>UOT_S\<close>,
  the function \<open>common.ConvertTime\<close> and the package constant \<open>MaximumTime\<close> are
  parameters of the functions that use them.
\<close>

type_synonym UnitOfTime = "64 word"

text \<open>A function that can panic returns \<open>Panic\<close> with the runtime's message.\<close>

datatype 'a outcome = Panic string | Return 'a

text \<open>
  A Go map that is written key by key, \<open>m[k] = v\<close>, is an association list here:
  \<open>assign\<close> replaces the value of a key that is present and adds the pair otherwise.
\<close>

fun assign :: "'k \<Rightarrow> 'a \<Rightarrow> ('k \<times> 'a) list \<Rightarrow> ('k \<times> 'a) list" where
  "assign k v [] = [(k, v)]"
| "assign k v (kv # rest) = (if fst kv = k then (k, v) # rest else kv # assign k v rest)"

section \<open>Prefix index (package prefix)\<close>

subsection \<open>The embedded ordered key/value store\<close>

text \<open>
  The store is \<open>github.com/boltdb/bolt\<close>, used through \<open>Bucket\<close>,
  \<open>CreateBucketIfNotExists\<close>, \<open>NextSequence\<close>, \<open>Put\<close> and a cursor.  A bucket keeps its
  pairs in ascending key order, one value per key, and a sequence counter that starts at
  0.  \<open>Put\<close> refuses an empty key, a key longer than \<open>MaxKeySize\<close> and a value longer than
  \<open>MaxValueSize\<close>; it replaces the value of a key that is present.  A transaction whose
  function returns an error is rolled back.
\<close>

record 'v bucket =
  pairs :: "(bytes \<times> 'v) list"
  sequence :: uint64

definition emptyBucket :: "'v bucket" where
  "emptyBucket = \<lparr>pairs = [], sequence = 0\<rparr>"

definition MaxKeySize :: nat where
  "MaxKeySize = 32768"

definition MaxValueSize :: nat where
  "MaxValueSize = 2 ^ 31 - 2"

fun put_pairs :: "bytes \<Rightarrow> 'v \<Rightarrow> (bytes \<times> 'v) list \<Rightarrow> (bytes \<times> 'v) list" where
  "put_pairs k v [] = [(k, v)]"
| "put_pairs k v (kv # rest) =
     (if k < fst kv then (k, v) # kv # rest
      else if k = fst kv then (k, v) # rest
      else kv # put_pairs k v rest)"

definition NextSequence :: "'v bucket \<Rightarrow> uint64 \<times> 'v bucket" where
  "NextSequence b = (sequence b + 1, b\<lparr>sequence := sequence b + 1\<rparr>)"

definition Put :: "bytes \<Rightarrow> bytes \<Rightarrow> bytes bucket \<Rightarrow> err + bytes bucket" where
  "Put key val b =
     (if length key = 0 then Inl ''key required''
      else if MaxKeySize < length key then Inl ''key too large''
      else if MaxValueSize < length val then Inl ''value too large''
      else Inr (b\<lparr>pairs := put_pairs key val (pairs b)\<rparr>))"

definition Bucket :: "bytes bucket bucket \<Rightarrow> bytes \<Rightarrow> bytes bucket option" where
  "Bucket b name = map_of (pairs b) name"

definition CreateBucketIfNotExists ::
  "bytes \<Rightarrow> bytes bucket bucket \<Rightarrow> err + (bytes bucket \<times> bytes bucket bucket)" where
  "CreateBucketIfNotExists name b =
     (if length name = 0 then Inl ''bucket name required''
      else case map_of (pairs b) name of
             Some ub \<Rightarrow> Inr (ub, b)
           | None \<Rightarrow> Inr (emptyBucket, b\<lparr>pairs := put_pairs name emptyBucket (pairs b)\<rparr>))"

text \<open>
  A cursor is the list of pairs from its position on.  \<open>Seek\<close> moves to the first key
  that is not below the sought one; at the end of the bucket \<open>Seek\<close> and every later
  \<open>Next\<close> return the \<open>nil\<close> key.
\<close>

definition Seek :: "bytes \<Rightarrow> 'v bucket \<Rightarrow> (bytes \<times> 'v) list" where
  "Seek k b = dropWhile (\<lambda>kv. fst kv < k) (pairs b)"

text \<open>
  \<^verbatim>\<open>func HasPrefix(s, prefix []byte) bool {
      return len(s) >= len(prefix) && Equal(s[0:len(prefix)], prefix) }\<close>
\<close>

definition HasPrefix :: "bytes \<Rightarrow> bytes \<Rightarrow> bool" where
  "HasPrefix s pfx = (length pfx \<le> length s \<and> take (length pfx) s = pfx)"

text \<open>
  \<^verbatim>\<open>func itob(v uint64) []byte {
      b := make([]byte, 8)
      binary.BigEndian.PutUint64(b, v)
      return b }\<close>
\<close>

definition itob :: "uint64 \<Rightarrow> bytes" where
  "itob v = map (\<lambda>i. ucast (drop_bit (8 * i) v)) [7, 6, 5, 4, 3, 2, 1, 0 :: nat]"

subsection \<open>PrefixStore\<close>

text \<open>
  The three buckets that \<open>NewPrefixStore\<close> creates.  The \<open>uuid\<close> bucket holds one
  sub-bucket per URI.
\<close>

record PrefixStore =
  tsBucket :: "bytes bucket"
  mdBucket :: "bytes bucket"
  uuidBucket :: "bytes bucket bucket"

definition NewPrefixStore :: PrefixStore where
  "NewPrefixStore = \<lparr>tsBucket = emptyBucket, mdBucket = emptyBucket, uuidBucket = emptyBucket\<rparr>"

text \<open>
  \<^verbatim>\<open>func (store *PrefixStore) AddMetadataURI(uri string) error {
      return store.db.Update(func(tx *bolt.Tx) error {
          b := tx.Bucket(mdBucket)
          id, _ := b.NextSequence()
          return b.Put(itob(id), []byte(uri)) }) }\<close>
  The key is the sequence number and the value is the URI.
\<close>

definition AddMetadataURI :: "bytes \<Rightarrow> PrefixStore \<Rightarrow> err option \<times> PrefixStore" where
  "AddMetadataURI uri store =
     (case NextSequence (mdBucket store) of
        (seqid, b) \<Rightarrow>
          (case Put (itob seqid) uri b of
             Inl e \<Rightarrow> (Some e, store)
           | Inr b' \<Rightarrow> (None, store\<lparr>mdBucket := b'\<rparr>)))"

text \<open>
  \<^verbatim>\<open>func (store *PrefixStore) AddTimeseriesURI(uri string) error {
      return store.db.Update(func(tx *bolt.Tx) error {
          b := tx.Bucket(tsBucket)
          id, _ := b.NextSequence()
          return b.Put([]byte(uri), itob(id)) }) }\<close>
  Here the key is the URI and the value is the sequence number.
\<close>

definition AddTimeseriesURI :: "bytes \<Rightarrow> PrefixStore \<Rightarrow> err option \<times> PrefixStore" where
  "AddTimeseriesURI uri store =
     (case NextSequence (tsBucket store) of
        (seqid, b) \<Rightarrow>
          (case Put uri (itob seqid) b of
             Inl e \<Rightarrow> (Some e, store)
           | Inr b' \<Rightarrow> (None, store\<lparr>tsBucket := b'\<rparr>)))"

text \<open>
  \<^verbatim>\<open>func (store *PrefixStore) AddUUIDURIMapping(uri string, uuid common.UUID) error {
      return store.db.Update(func(tx *bolt.Tx) error {
          b := tx.Bucket(uuidBucket)
          ub, err := b.CreateBucketIfNotExists([]byte(uri))
          if err != nil { return err }
          id, _ := ub.NextSequence()
          bytes := uuid.Bytes()
          return ub.Put(itob(id), bytes[:]) }) }\<close>
  The changed sub-bucket is written back under its name.
\<close>

definition AddUUIDURIMapping :: "bytes \<Rightarrow> UUID \<Rightarrow> PrefixStore \<Rightarrow> err option \<times> PrefixStore" where
  "AddUUIDURIMapping uri uuid store =
     (case CreateBucketIfNotExists uri (uuidBucket store) of
        Inl e \<Rightarrow> (Some e, store)
      | Inr (ub, b) \<Rightarrow>
          (case NextSequence ub of
             (seqid, ub1) \<Rightarrow>
               (case Put (itob seqid) uuid ub1 of
                  Inl e \<Rightarrow> (Some e, store)
                | Inr ub2 \<Rightarrow>
                    (None, store\<lparr>uuidBucket := b\<lparr>pairs := put_pairs uri ub2 (pairs b)\<rparr>\<rparr>))))"

text \<open>
  The loop shared by \<open>GetMetadataSuperstrings\<close> and \<open>GetTimeseriesSuperstrings\<close>:
  \<^verbatim>\<open>for k, _ := c.Seek(bpfx); bytes.HasPrefix(k, bpfx); k, _ = c.Next() {
      matching = append(matching, string(k)) }\<close>
  Its only exit is a key without the prefix.  At the end of the bucket the key is
  \<open>nil\<close>, the empty slice for \<open>HasPrefix\<close>, and the cursor stays at the end; so the
  loop is a partial function, and \<open>None\<close> is a run that does not end.
\<close>

partial_function (option) scanPrefix ::
  "bytes \<Rightarrow> (bytes \<times> 'v) list \<Rightarrow> bytes list \<Rightarrow> bytes list option" where
  "scanPrefix bpfx cur matching =
     (case cur of
        [] \<Rightarrow>
          if HasPrefix [] bpfx then scanPrefix bpfx [] (matching @ [[]]) else Some matching
      | kv # rest \<Rightarrow>
          if HasPrefix (fst kv) bpfx then scanPrefix bpfx rest (matching @ [fst kv])
          else Some matching)"

text \<open>
  Both functions return \<open>matching\<close> and the error of \<open>db.View\<close>, which is \<open>nil\<close>: the
  function they pass returns \<open>nil\<close>.
\<close>

definition GetMetadataSuperstrings :: "bytes \<Rightarrow> PrefixStore \<Rightarrow> (bytes list \<times> err option) option" where
  "GetMetadataSuperstrings pfx store =
     (case scanPrefix pfx (Seek pfx (mdBucket store)) [] of
        None \<Rightarrow> None
      | Some matching \<Rightarrow> Some (matching, None))"

definition GetTimeseriesSuperstrings :: "bytes \<Rightarrow> PrefixStore \<Rightarrow> (bytes list \<times> err option) option" where
  "GetTimeseriesSuperstrings pfx store =
     (case scanPrefix pfx (Seek pfx (tsBucket store)) [] of
        None \<Rightarrow> None
      | Some matching \<Rightarrow> Some (matching, None))"

text \<open>
  \<^verbatim>\<open>func (store *PrefixStore) GetUUIDsFromURI(uri string) (uuids []common.UUID, err error) {
      superURIs, err := store.GetTimeseriesSuperstrings(uri)
      if err != nil { return }
      foundUUIDs := make(map[[16]byte]bool)
      err = store.db.View(func(tx *bolt.Tx) error {
          b := tx.Bucket(uuidBucket)
          for _, suri := range superURIs {
              ub := b.Bucket([]byte(suri))
              if ub == nil { return nil }
              c := ub.Cursor()
              for k, v := c.First(); k != nil; k, v = c.Next() {
                  foundUUIDs[common.UUID(v).Bytes()] = true } }
          return nil })
      for uuid, _ := range foundUUIDs { uuids = append(uuids, common.UUIDFromBytes(uuid)) }
      return uuids, err }\<close>
  \<open>foundUUIDs\<close> is the list of its keys, each once.  Go leaves the order of a range over a
  map open; the model lists the keys latest first.  \<open>collectUUIDs\<close> is the loop over
  \<open>superURIs\<close>: a URI without a sub-bucket ends it with \<open>return nil\<close>.
\<close>

fun collectUUIDs :: "bytes bucket bucket \<Rightarrow> bytes list \<Rightarrow> UUID list \<Rightarrow> UUID list" where
  "collectUUIDs b [] foundUUIDs = foundUUIDs"
| "collectUUIDs b (suri # rest) foundUUIDs =
     (case Bucket b suri of
        None \<Rightarrow> foundUUIDs
      | Some ub \<Rightarrow> collectUUIDs b rest (fold List.insert (map snd (pairs ub)) foundUUIDs))"

definition GetUUIDsFromURI :: "bytes \<Rightarrow> PrefixStore \<Rightarrow> (UUID list \<times> err option) option" where
  "GetUUIDsFromURI uri store =
     (case GetTimeseriesSuperstrings uri store of
        None \<Rightarrow> None
      | Some (superURIs, Some e) \<Rightarrow> Some ([], Some e)
      | Some (superURIs, None) \<Rightarrow> Some (collectUUIDs (uuidBucket store) superURIs [], None))"

subsection \<open>Runs of the prefix index\<close>

text \<open>
  The store after \<open>AddMetadataURI("a/b")\<close> on a new store, and after a second call with
  the same URI.
\<close>

definition md_once :: PrefixStore where
  "md_once = snd (AddMetadataURI (bytes_of ''a/b'') NewPrefixStore)"

definition md_twice :: PrefixStore where
  "md_twice = snd (AddMetadataURI (bytes_of ''a/b'') md_once)"

text \<open>
  The store after \<open>AddTimeseriesURI("a/b")\<close>, \<open>AddTimeseriesURI("a/c")\<close> and
  \<open>AddUUIDURIMapping("a/c", uuid_c)\<close>: the URI \<open>a/b\<close> has no UUID registered (yet).
\<close>

definition uuid_c :: UUID where
  "uuid_c = [1, 2, 3, 4, 5, 6, 7, 8, 9, 10, 11, 12, 13, 14, 15, 16]"

definition ts_two :: PrefixStore where
  "ts_two =
     snd (AddUUIDURIMapping (bytes_of ''a/c'') uuid_c
       (snd (AddTimeseriesURI (bytes_of ''a/c'')
         (snd (AddTimeseriesURI (bytes_of ''a/b'') NewPrefixStore)))))"

section \<open>Metadata store adapter (mongoStore)\<close>

subsection \<open>Documents and the collection\<close>

text \<open>
  A value of Go's \<open>interface{}\<close> carries its dynamic type.  Decoding into a \<open>bson.M\<close>
  gives \<open>int\<close> for a 32-bit BSON integer and \<open>int64\<close> for a 64-bit one; \<open>DUuid\<close> stands
  for the encoding of a \<open>common.UUID\<close>.  A document (\<open>bson.M\<close>) is an association list
  read with \<open>map_of\<close>.
\<close>

datatype dyn =
    DNil
  | DInt int64
  | DInt64 int64
  | DString string
  | DStrings "string list"
  | DUuid UUID
  | DBool bool

type_synonym doc = "(string \<times> dyn) list"

text \<open>
  The engine behind \<open>m.metadata\<close>: the documents of the collection, and whether it fails
  to answer a count or a fetch (\<open>One\<close>, \<open>All\<close>).  A query is a selection of documents
  (\<open>Find\<close>, \<open>nil\<close> selects all) followed by a projection (\<open>Select\<close>): a selector with
  fields set to 1 keeps these fields, and \<open>_id\<close> unless it is set to 0; a selector
  without them drops the fields set to 0.
\<close>

record mongoStore =
  metadata :: "doc list"
  countErr :: "err option"
  fetchErr :: "err option"

definition Find :: "(doc \<Rightarrow> bool) option \<Rightarrow> mongoStore \<Rightarrow> doc list" where
  "Find q m = (case q of None \<Rightarrow> metadata m | Some p \<Rightarrow> filter p (metadata m))"

definition keeps :: "(string \<times> nat) list \<Rightarrow> string \<Rightarrow> bool" where
  "keeps sel k =
     (if 1 \<in> snd ` set sel
      then map_of sel k = Some 1 \<or> (k = ''_id'' \<and> map_of sel k \<noteq> Some 0)
      else map_of sel k \<noteq> Some 0)"

definition Select :: "(string \<times> nat) list \<Rightarrow> doc list \<Rightarrow> doc list" where
  "Select sel ds = map (filter (\<lambda>kv. keeps sel (fst kv))) ds"

definition Count :: "mongoStore \<Rightarrow> doc list \<Rightarrow> err + nat" where
  "Count m ds = (case countErr m of Some e \<Rightarrow> Inl e | None \<Rightarrow> Inr (length ds))"

definition One :: "mongoStore \<Rightarrow> doc list \<Rightarrow> err + doc" where
  "One m ds =
     (case fetchErr m of
        Some e \<Rightarrow> Inl e
      | None \<Rightarrow> (case ds of [] \<Rightarrow> Inl ''not found'' | d # _ \<Rightarrow> Inr d))"

definition All :: "mongoStore \<Rightarrow> doc list \<Rightarrow> err + doc list" where
  "All m ds = (case fetchErr m of Some e \<Rightarrow> Inl e | None \<Rightarrow> Inr ds)"

definition Wrap :: "err \<Rightarrow> string \<Rightarrow> err" where
  "Wrap e msg = msg @ '': '' @ e"

subsection \<open>GetUnitOfTime\<close>

text \<open>
  \<^verbatim>\<open>func (m *mongoStore) GetUnitOfTime(VK string, uuid common.UUID) (common.UnitOfTime, error) {
      var ( c int; err error; res interface{} )
      uot := common.UOT_S
      query := m.metadata.Find(bson.M{"uuid": uuid}).Select(bson.M{"UnitofTime": 1})
      if c, err = query.Count(); err != nil {
          return uot, errors.Wrapf(err, "Could not find any UnitofTime records")
      } else if c == 0 {
          return uot, fmt.Errorf("no stream named %v", uuid)
      }
      err = query.One(&res)
      if entry, found := res.(bson.M)["UnitofTime"]; found {
          if uotInt, isInt := entry.(int); isInt {
              uot = common.UnitOfTime(uotInt)
          } else {
              return uot, fmt.Errorf("Invalid UnitOfTime retrieved? %v", entry)
          }
          uot = common.UnitOfTime(entry.(int))
          if uot == 0 { uot = common.UOT_S }
      }
      return uot, nil }\<close>
  The error of \<open>One\<close> is not looked at: when the fetch fails \<open>res\<close> is still \<open>nil\<close> and
  the assertion \<open>res.(bson.M)\<close> panics.  The two formatted messages are modelled
  without the formatted value.
\<close>

definition referencesUUID :: "UUID \<Rightarrow> doc \<Rightarrow> bool" where
  "referencesUUID uuid d = (map_of d ''uuid'' = Some (DUuid uuid))"

definition errNoStream :: err where
  "errNoStream = ''no stream named''"

definition errInvalidUnit :: err where
  "errInvalidUnit = ''Invalid UnitOfTime retrieved?''"

definition GetUnitOfTime ::
  "UnitOfTime \<Rightarrow> mongoStore \<Rightarrow> string \<Rightarrow> UUID \<Rightarrow> (UnitOfTime \<times> err option) outcome" where
  "GetUnitOfTime UOT_S m VK uuid =
     (let uot = UOT_S;
          query = Select [(''UnitofTime'', 1)] (Find (Some (referencesUUID uuid)) m)
      in case Count m query of
           Inl e \<Rightarrow> Return (uot, Some (Wrap e ''Could not find any UnitofTime records''))
         | Inr c \<Rightarrow>
             if c = 0 then Return (uot, Some errNoStream)
             else
               (case One m query of
                  Inl e \<Rightarrow> Panic ''interface conversion: interface {} is nil, not bson.M''
                | Inr res \<Rightarrow>
                    (case map_of res ''UnitofTime'' of
                       None \<Rightarrow> Return (uot, None)
                     | Some entry \<Rightarrow>
                         (case entry of
                            DInt uotInt \<Rightarrow> Return (if uotInt = 0 then UOT_S else uotInt, None)
                          | _ \<Rightarrow> Return (uot, Some errInvalidUnit)))))"

subsection \<open>GetMetadata\<close>

text \<open>
  \<^verbatim>\<open>func (m *mongoStore) GetMetadata(VK string, tags []string, where common.Dict)
          (*common.MetadataGroup, error) {
      var ( whereClause bson.M; _results []bson.M )
      if len(where) != 0 { whereClause = where.ToBSON() }
      staged := m.metadata.Find(whereClause)
      selectTags := bson.M{"_id": 0}
      if len(tags) != 0 {
          for _, tag := range tags { selectTags[tag] = 1 } }
      if err := staged.Select(selectTags).All(&_results); err != nil {
          return nil, errors.Wrap(err, "Could not select tags") }
      for _, doc := range _results { log.Debug(doc) }
      return nil, nil }\<close>
  \<open>common.Dict\<close> and its \<open>ToBSON\<close> are not part of the sources: a dictionary is a list
  of entries, and \<open>ToBSON\<close>, a parameter, gives the selection that the translated clause
  stands for.  \<open>common.MetadataGroup\<close> is the map \<open>Records\<close> from a key to its
  \<open>MetadataRecord\<close>, of which \<open>Key\<close> and \<open>Value\<close> are used.  \<open>selectedMetadata\<close> is the value of \<open>_results\<close>, which the code logs;
  the function returns the \<open>nil\<close> group.
\<close>

record MetadataRecord =
  Key :: string
  Value :: dyn

type_synonym MetadataGroup = "(string \<times> MetadataRecord) list"

definition selectTags :: "string list \<Rightarrow> (string \<times> nat) list" where
  "selectTags tags = fold (\<lambda>tag sel. assign tag 1 sel) tags [(''_id'', 0)]"

definition selectedMetadata ::
  "('d list \<Rightarrow> doc \<Rightarrow> bool) \<Rightarrow> mongoStore \<Rightarrow> string list \<Rightarrow> 'd list \<Rightarrow> err + doc list" where
  "selectedMetadata ToBSON m tags wh =
     (let whereClause = (if length wh \<noteq> 0 then Some (ToBSON wh) else None);
          staged = Find whereClause m
      in All m (Select (selectTags tags) staged))"

definition GetMetadata ::
  "('d list \<Rightarrow> doc \<Rightarrow> bool) \<Rightarrow> mongoStore \<Rightarrow> string \<Rightarrow> string list \<Rightarrow> 'd list
     \<Rightarrow> MetadataGroup option \<times> err option" where
  "GetMetadata ToBSON m VK tags wh =
     (case selectedMetadata ToBSON m tags wh of
        Inl e \<Rightarrow> (None, Some (Wrap e ''Could not select tags''))
      | Inr results \<Rightarrow> (None, None))"

subsection \<open>Runs of the metadata store\<close>

text \<open>
  A collection with one record of the stream \<open>uuid_c\<close> whose unit of time is stored as a
  64-bit integer, and one with a \<open>Building\<close> record; \<open>equalsAll\<close> reads a dictionary as
  equalities on fields.
\<close>

definition unit_int64 :: mongoStore where
  "unit_int64 =
     \<lparr>metadata = [[(''_id'', DInt 1), (''uuid'', DUuid uuid_c), (''UnitofTime'', DInt64 3)]],
      countErr = None, fetchErr = None\<rparr>"

definition unit_int :: mongoStore where
  "unit_int =
     \<lparr>metadata = [[(''_id'', DInt 1), (''uuid'', DUuid uuid_c), (''UnitofTime'', DInt 3)]],
      countErr = None, fetchErr = None\<rparr>"

definition building :: mongoStore where
  "building =
     \<lparr>metadata = [[(''_id'', DInt 7), (''Key'', DString ''Building''),
                   (''Value'', DString ''Soda''), (''SrcURI'', DString ''scratch'')]],
      countErr = None, fetchErr = None\<rparr>"

definition equalsAll :: "(string \<times> dyn) list \<Rightarrow> doc \<Rightarrow> bool" where
  "equalsAll wh d = list_all (\<lambda>kv. map_of d (fst kv) = Some (snd kv)) wh"

section \<open>Timeseries store adapter (archiver/btrdb.v4.go)\<close>

subsection \<open>The engine and the stream cache\<close>

text \<open>
  The timeseries engine is \<open>gopkg.in/btrdb.v4\<close>.  A \<open>*btrdb.Stream\<close> is the handle that
  \<open>StreamFromUUID\<close> makes from a UUID, so a handle is modelled by that UUID.  The calls on
  a handle are the fields of \<open>engine\<close>: each gives what the engine answers.  Point values
  (\<open>float64\<close>) are only carried along; their type is the parameter \<open>'v\<close>.
\<close>

type_synonym Stream = UUID

record 'v TimeseriesReading =
  rTime :: int64
  rUnit :: UnitOfTime
  rValue :: 'v

record 'v Timeseries =
  tsUUID :: UUID
  Records :: "'v TimeseriesReading list"
  Generation :: uint64

record 'v engine =
  stream_Exists :: "Stream \<Rightarrow> err + bool"
  stream_InsertF :: "Stream \<Rightarrow> (int64 \<times> 'v) list \<Rightarrow> err option"
  stream_RawValues :: "Stream \<Rightarrow> int64 \<Rightarrow> int64 \<Rightarrow> (int64 \<times> 'v) list \<times> uint64 \<times> err option"
  stream_Annotations :: "Stream \<Rightarrow> err + uint64"
  stream_CompareAndSetAnnotation :: "Stream \<Rightarrow> uint64 \<Rightarrow> (string \<times> string) list \<Rightarrow> err option"

text \<open>
  The state of the adapter: the stream cache of \<open>btrdbv4Iface\<close>, keyed by the UUID
  (the code keys it by \<open>streamuuid.String()\<close>), and the two package counters
  \<open>currentWrites\<close> and \<open>completedWrites\<close>.  The model is sequential: one call runs at
  a time.
\<close>

record world =
  streamCache :: "UUID \<rightharpoonup> Stream"
  currentWrites :: int64
  completedWrites :: int64

definition errStreamNotExist :: err where
  "errStreamNotExist = ''Stream does not exist''"

text \<open>
  \<^verbatim>\<open>func (bdb *btrdbv4Iface) getStream(streamuuid common.UUID) (stream *btrdb.Stream, err error) {
      bdb.streamCacheLock.RLock()
      stream, found := bdb.streamCache[streamuuid.String()]
      bdb.streamCacheLock.RUnlock()
      if found { return }
      ...
      stream = bdb.conn.StreamFromUUID(uuid.Parse(streamuuid.String()))
      if exists, existsErr := stream.Exists(ctx); existsErr != nil {
          if existsErr != nil {
              err = errors.Wrap(existsErr, "Could not fetch stream")
              return }
      } else if exists {
          bdb.streamCacheLock.Lock()
          bdb.streamCache[streamuuid.String()] = stream
          bdb.streamCacheLock.Unlock()
          return }
      err = errStreamNotExist
      return }\<close>
\<close>

definition getStream ::
  "'v engine \<Rightarrow> UUID \<Rightarrow> (UUID \<rightharpoonup> Stream) \<Rightarrow> (Stream \<times> err option) \<times> (UUID \<rightharpoonup> Stream)" where
  "getStream eng streamuuid cache =
     (case cache streamuuid of
        Some stream \<Rightarrow> ((stream, None), cache)
      | None \<Rightarrow>
          (case stream_Exists eng streamuuid of
             Inl existsErr \<Rightarrow> ((streamuuid, Some (Wrap existsErr ''Could not fetch stream'')), cache)
           | Inr exists \<Rightarrow>
               if exists then ((streamuuid, None), cache(streamuuid \<mapsto> streamuuid))
               else ((streamuuid, Some errStreamNotExist), cache)))"

text \<open>
  \<^verbatim>\<open>func (bdb *btrdbv4Iface) uuidsToStreams(uuids ...common.UUID) []*btrdb.Stream {
      var streams []*btrdb.Stream
      for _, id := range uuids {
          stream, err := bdb.getStream(id)
          if err == nil { streams = append(streams, stream); continue }
          if err == errStreamNotExist { continue }
          log.Error(errors.Wrapf(err, "Could not find stream %s", id)) }
      return streams }\<close>
\<close>

fun uuidsToStreams ::
  "'v engine \<Rightarrow> UUID list \<Rightarrow> (UUID \<rightharpoonup> Stream) \<Rightarrow> Stream list \<times> (UUID \<rightharpoonup> Stream)" where
  "uuidsToStreams eng [] cache = ([], cache)"
| "uuidsToStreams eng (u # uuids) cache =
     (case getStream eng u cache of
        ((stream, e), cache1) \<Rightarrow>
          (case uuidsToStreams eng uuids cache1 of
             (streams, cache2) \<Rightarrow> (if e = None then stream # streams else streams, cache2)))"

subsection \<open>AddReadings\<close>

text \<open>
  \<^verbatim>\<open>func (bdb *btrdbv4Iface) AddReadings(readings common.Timeseries) error {
      stream, err := bdb.getStream(readings.UUID)
      if err != nil {
          return errors.Wrap(err, "AddReadings: could not get stream") }
      atomic.AddInt64(&currentWrites, 1)
      ctx := context.Background()
      defer func() {
          atomic.AddInt64(&currentWrites, -1)
          atomic.AddInt64(&completedWrites, 1)
      }()
      timefunc := func(i int) int64 { return readings.Records[i].Time.UnixNano() }
      valfunc := func(i int) float64 { return readings.Records[i].Value }
      return stream.InsertF(ctx, len(readings.Records), timefunc, valfunc) }\<close>
  A run gives the returned error, the state in which \<open>InsertF\<close> runs (none when the
  insert is not reached) and the state when the call has returned, after the deferred
  function.  \<open>InsertF\<close> gets the times and values that \<open>timefunc\<close> and \<open>valfunc\<close>
  read from the records; a time is its \<open>UnixNano()\<close>.
\<close>

record AddReadingsRun =
  returned :: "err option"
  during :: "world option"
  after :: world

definition AddReadings :: "'v engine \<Rightarrow> 'v Timeseries \<Rightarrow> world \<Rightarrow> AddReadingsRun" where
  "AddReadings eng readings w =
     (case getStream eng (tsUUID readings) (streamCache w) of
        ((stream, Some e), cache) \<Rightarrow>
          \<lparr>returned = Some (Wrap e ''AddReadings: could not get stream''), during = None,
           after = w\<lparr>streamCache := cache\<rparr>\<rparr>
      | ((stream, None), cache) \<Rightarrow>
          (let w1 = w\<lparr>streamCache := cache, currentWrites := currentWrites w + 1\<rparr>;
               r = stream_InsertF eng stream (map (\<lambda>rd. (rTime rd, rValue rd)) (Records readings));
               w2 = w1\<lparr>currentWrites := currentWrites w1 + (- 1),
                        completedWrites := completedWrites w1 + 1\<rparr>
           in \<lparr>returned = r, during = Some w1, after = w2\<rparr>))"

subsection \<open>GetDataUUID\<close>

text \<open>
  \<^verbatim>\<open>func (bdb *btrdbv4Iface) GetDataUUID(uuid common.UUID, start, end int64,
          uot common.UnitOfTime) (common.Timeseries, error) {
      stream := bdb.uuidsToStreams(uuid)[0]
      ...
      ts := common.Timeseries{ UUID: common.ParseUUID(stream.UUID().String()) }
      rawpoints, generations, errchan := stream.RawValues(ctx, start, end, 0)
      for point := range rawpoints {
          ts.Records = append(ts.Records, rawpointToTimeseriesReading(point, uot)) }
      ts.Generation = <-generations
      if err := <-errchan; err != nil {
          return ts, errors.Wrapf(err, "Could not fetch rawdata for stream %s", stream.UUID()) }
      return ts, nil }\<close>
  Indexing the empty list of streams panics.
\<close>

definition rawpointToTimeseriesReading :: "int64 \<times> 'v \<Rightarrow> UnitOfTime \<Rightarrow> 'v TimeseriesReading" where
  "rawpointToTimeseriesReading point uot = \<lparr>rTime = fst point, rUnit = uot, rValue = snd point\<rparr>"

definition GetDataUUID ::
  "'v engine \<Rightarrow> UUID \<Rightarrow> int64 \<Rightarrow> int64 \<Rightarrow> UnitOfTime \<Rightarrow> (UUID \<rightharpoonup> Stream)
     \<Rightarrow> (('v Timeseries \<times> err option) \<times> (UUID \<rightharpoonup> Stream)) outcome" where
  "GetDataUUID eng uuid start endt uot cache =
     (case uuidsToStreams eng [uuid] cache of
        ([], cache1) \<Rightarrow> Panic ''index out of range [0] with length 0''
      | (stream # _, cache1) \<Rightarrow>
          (case stream_RawValues eng stream start endt of
             (rawpoints, generation, e) \<Rightarrow>
               (let ts = \<lparr>tsUUID = stream,
                          Records = map (\<lambda>point. rawpointToTimeseriesReading point uot) rawpoints,
                          Generation = generation\<rparr>
                in case e of
                     Some er \<Rightarrow> Return ((ts, Some (Wrap er ''Could not fetch rawdata for stream'')), cache1)
                   | None \<Rightarrow> Return ((ts, None), cache1))))"

subsection \<open>AddAnnotations\<close>

text \<open>
  \<^verbatim>\<open>func (bdb *btrdbv4Iface) AddAnnotations(uuid common.UUID, updates map[string]interface{}) error {
      streams := bdb.uuidsToStreams(uuid)
      for _, stream := range streams {
          ...
          var annotations = make(map[string]*string)
          for k, v := range updates {
              vs := v.(string)
              k = strings.ToLower(k)
              annotations[k] = &vs }
          _, ver, err := stream.Annotations(ctx)
          if err != nil { return err }
          return stream.CompareAndSetAnnotation(ctx, ver, annotations) }
      return nil }\<close>
  \<open>updates\<close> is listed in the order in which the range visits it.  The assertion
  \<open>v.(string)\<close> panics on a value of another dynamic type.  \<open>strings.ToLower\<close> is a
  parameter.
\<close>

fun buildAnnotations ::
  "(string \<Rightarrow> string) \<Rightarrow> (string \<times> dyn) list \<Rightarrow> (string \<times> string) list
     \<Rightarrow> (string \<times> string) list outcome" where
  "buildAnnotations ToLower [] annotations = Return annotations"
| "buildAnnotations ToLower (kv # rest) annotations =
     (case snd kv of
        DString vs \<Rightarrow> buildAnnotations ToLower rest (assign (ToLower (fst kv)) vs annotations)
      | _ \<Rightarrow> Panic ''interface conversion: interface {} is not string'')"

definition AddAnnotations ::
  "(string \<Rightarrow> string) \<Rightarrow> 'v engine \<Rightarrow> UUID \<Rightarrow> (string \<times> dyn) list \<Rightarrow> (UUID \<rightharpoonup> Stream)
     \<Rightarrow> (err option \<times> (UUID \<rightharpoonup> Stream)) outcome" where
  "AddAnnotations ToLower eng uuid updates cache =
     (case uuidsToStreams eng [uuid] cache of
        ([], cache1) \<Rightarrow> Return (None, cache1)
      | (stream # _, cache1) \<Rightarrow>
          (case buildAnnotations ToLower updates [] of
             Panic p \<Rightarrow> Panic p
           | Return annotations \<Rightarrow>
               (case stream_Annotations eng stream of
                  Inl e \<Rightarrow> Return (Some e, cache1)
                | Inr ver \<Rightarrow>
                    Return (stream_CompareAndSetAnnotation eng stream ver annotations, cache1))))"

subsection \<open>Runs of the timeseries adapter\<close>

text \<open>
  An engine that knows the stream \<open>uuid_c\<close> only and accepts everything, one that
  refuses every insert, and the state at start.
\<close>

definition accepting :: "int engine" where
  "accepting =
     \<lparr>stream_Exists = (\<lambda>s. Inr (s = uuid_c)),
      stream_InsertF = (\<lambda>s points. None),
      stream_RawValues = (\<lambda>s start endt. ([], 0, None)),
      stream_Annotations = (\<lambda>s. Inr 0),
      stream_CompareAndSetAnnotation = (\<lambda>s ver anns. None)\<rparr>"

definition refusing :: "int engine" where
  "refusing = accepting\<lparr>stream_InsertF := (\<lambda>s points. Some ''insert failed'')\<rparr>"

definition world0 :: world where
  "world0 = \<lparr>streamCache = Map.empty, currentWrites = 0, completedWrites = 0\<rparr>"

definition one_reading :: "int Timeseries" where
  "one_reading =
     \<lparr>tsUUID = uuid_c, Records = [\<lparr>rTime = 1700000000000000000, rUnit = 1, rValue = 22\<rparr>],
      Generation = 0\<rparr>"

subsection \<open>ValidTimestamp\<close>



section \<open>Query front end (archiver/archiver.go)\<close>

subsection \<open>The parse tree and the evaluators\<close>

text \<open>
  Modelled from the spec: the parse tree of package \<open>querylang\<close> and the parameter
  structs of package \<open>common\<close>, with the query variants of the query evaluator (select,
  select distinct, data in a range, before or after a time, statistical or window data,
  changed ranges).
  Package \<open>querylang\<close> and the evaluators of package \<open>archiver\<close> (\<open>SelectTags\<close>,
  \<open>DistinctTag\<close>, \<open>SelectStatisticalData\<close>, \<open>GetChangedRanges\<close>, \<open>SelectDataRange\<close>,
  \<open>SelectDataBefore\<close>, \<open>SelectDataAfter\<close>) are not part of the sources.  The parse tree
  carries the fields that \<open>HandleQuery\<close> reads; \<open>GetParams()\<close> returns an
  \<open>interface{}\<close>, whose dynamic type is one of the three parameter structs or something
  else.  The parser and the evaluators are the fields of \<open>archiver\<close>; the result types of
  the data evaluators are type parameters.
\<close>

datatype QueryType = SELECT_TYPE | DATA_TYPE | OTHER_QUERY_TYPE

datatype Dtype = IN_TYPE | BEFORE_TYPE | AFTER_TYPE | OTHER_DTYPE

record DistinctParams =
  Tag :: string
  distinctWhere :: "(string \<times> dyn) list"

record TagParams =
  Tags :: "string list"
  tagWhere :: "(string \<times> dyn) list"

record DataParams =
  IsStatistical :: bool
  IsWindow :: bool
  IsChangedRanges :: bool
  dataWhere :: "(string \<times> dyn) list"

datatype Params =
    NoParams
  | IsDistinctParams DistinctParams
  | IsTagParams TagParams
  | IsDataParams DataParams

record parsed =
  Err :: "err option"
  ErrPos :: string
  QueryType :: QueryType
  Distinct :: bool
  GetParams :: Params
  Data_Dtype :: Dtype

record ('ts, 'st, 'ch) archiver =
  Parse :: "string \<Rightarrow> parsed"
  DistinctTag :: "string \<Rightarrow> DistinctParams \<Rightarrow> string list \<times> err option"
  SelectTags :: "string \<Rightarrow> TagParams \<Rightarrow> MetadataGroup list \<times> err option"
  SelectStatisticalData :: "string \<Rightarrow> DataParams \<Rightarrow> 'st list \<times> err option"
  GetChangedRanges :: "DataParams \<Rightarrow> 'ch list \<times> err option"
  SelectDataRange :: "string \<Rightarrow> DataParams \<Rightarrow> 'ts list \<times> err option"
  SelectDataBefore :: "string \<Rightarrow> DataParams \<Rightarrow> 'ts list \<times> err option"
  SelectDataAfter :: "string \<Rightarrow> DataParams \<Rightarrow> 'ts list \<times> err option"

subsection \<open>HandleQuery\<close>

text \<open>
  \<^verbatim>\<open>func (a *Archiver) HandleQuery(vk, query string) (mdResult []common.MetadataGroup,
          tsResult []common.Timeseries, statsResult []common.StatisticTimeseries,
          changedResult []common.ChangedRange, err error) {
      parsed := a.qp.Parse(query)
      if parsed.Err != nil {
          err = fmt.Errorf(<format>, parsed.Err, query, parsed.ErrPos)
          return }
      switch parsed.QueryType {
      case querylang.SELECT_TYPE:
          if parsed.Distinct {
              var results []string
              params := parsed.GetParams().(*common.DistinctParams)
              results, err = a.DistinctTag(vk, params)
              record := &common.MetadataRecord{ Key: params.Tag, Value: results }
              mdResult = []common.MetadataGroup{
                  {Records: map[string]*common.MetadataRecord{params.Tag: record}} }
              return }
          params := parsed.GetParams().(*common.TagParams)
          mdResult, err = a.SelectTags(vk, params)
          return
      case querylang.DATA_TYPE:
          params := parsed.GetParams().(*common.DataParams)
          if params.IsStatistical || params.IsWindow {
              statsResult, err = a.SelectStatisticalData(vk, params)
              return }
          if params.IsChangedRanges {
              changedResult, err = a.GetChangedRanges(params)
              return }
          switch parsed.Data.Dtype {
          case querylang.IN_TYPE:     tsResult, err = a.SelectDataRange(vk, params); return
          case querylang.BEFORE_TYPE: tsResult, err = a.SelectDataBefore(vk, params); return
          case querylang.AFTER_TYPE:  tsResult, err = a.SelectDataAfter(vk, params); return } }
      return }\<close>
  Each of the three unchecked assertions on \<open>GetParams()\<close> panics on another dynamic type.
  \<open>parseError\<close> is the formatted message, without the quotes around the query.
\<close>

definition parseError :: "err \<Rightarrow> string \<Rightarrow> string \<Rightarrow> err" where
  "parseError e query pos =
     ''Error ('' @ e @ '') in query '' @ query @ '' (error at '' @ pos @ '')''"

definition assertionPanic :: string where
  "assertionPanic = ''interface conversion: interface {} has another dynamic type''"

definition HandleQuery ::
  "('ts, 'st, 'ch) archiver \<Rightarrow> string \<Rightarrow> string
     \<Rightarrow> (MetadataGroup list \<times> 'ts list \<times> 'st list \<times> 'ch list \<times> err option) outcome" where
  "HandleQuery a vk query =
     (let parsed = Parse a query
      in case Err parsed of
           Some e \<Rightarrow> Return ([], [], [], [], Some (parseError e query (ErrPos parsed)))
         | None \<Rightarrow>
             (case QueryType parsed of
                SELECT_TYPE \<Rightarrow>
                  if Distinct parsed then
                    (case GetParams parsed of
                       IsDistinctParams params \<Rightarrow>
                         (case DistinctTag a vk params of
                            (results, e) \<Rightarrow>
                              Return ([[(Tag params, \<lparr>Key = Tag params, Value = DStrings results\<rparr>)]],
                                      [], [], [], e))
                     | _ \<Rightarrow> Panic assertionPanic)
                  else
                    (case GetParams parsed of
                       IsTagParams params \<Rightarrow>
                         (case SelectTags a vk params of
                            (mdResult, e) \<Rightarrow> Return (mdResult, [], [], [], e))
                     | _ \<Rightarrow> Panic assertionPanic)
              | DATA_TYPE \<Rightarrow>
                  (case GetParams parsed of
                     IsDataParams params \<Rightarrow>
                       if IsStatistical params \<or> IsWindow params then
                         (case SelectStatisticalData a vk params of
                            (statsResult, e) \<Rightarrow> Return ([], [], statsResult, [], e))
                       else if IsChangedRanges params then
                         (case GetChangedRanges a params of
                            (changedResult, e) \<Rightarrow> Return ([], [], [], changedResult, e))
                       else
                         (case Data_Dtype parsed of
                            IN_TYPE \<Rightarrow>
                              (case SelectDataRange a vk params of
                                 (tsResult, e) \<Rightarrow> Return ([], tsResult, [], [], e))
                          | BEFORE_TYPE \<Rightarrow>
                              (case SelectDataBefore a vk params of
                                 (tsResult, e) \<Rightarrow> Return ([], tsResult, [], [], e))
                          | AFTER_TYPE \<Rightarrow>
                              (case SelectDataAfter a vk params of
                                 (tsResult, e) \<Rightarrow> Return ([], tsResult, [], [], e))
                          | OTHER_DTYPE \<Rightarrow> Return ([], [], [], [], None))
                   | _ \<Rightarrow> Panic assertionPanic)
              | OTHER_QUERY_TYPE \<Rightarrow> Return ([], [], [], [], None)))"

subsection \<open>listenQueries\<close>

text \<open>
  \<^verbatim>\<open>func (a *Archiver) listenQueries(msg *bw2.SimpleMessage) {
      var ( fromVK string; signalURI string; query KeyValueQuery )
      start := time.Now()
      fromVK = msg.From
      po := msg.GetOnePODF(bw2.PODFGilesKeyValueQuery)
      if po == nil { return }
      if obj, ok := po.(bw2.MsgPackPayloadObject); !ok {
          log.Error("Received query was not msgpack")
      } else if err := obj.ValueInto(&query); err != nil {
          log.Error(errors.Wrap(err, "Could not unmarshal received query"))
          return }
      signalURI = fmt.Sprintf("%s,queries", fromVK[:len(fromVK)-1])
      mdRes, tsRes, statsRes, changedRes, err := a.HandleQuery(fromVK, query.Query)
      if err != nil {
          msg := QueryError{ Query: query.Query, Nonce: query.Nonce, Error: err.Error() }
          po, _ := bw2.CreateMsgPackPayloadObject(bw2.PONumGilesQueryError, msg)
          if err := a.iface.PublishSignal(signalURI, po); err != nil { ... }
          return }
      var reply []bw2.PayloadObject
      if len(mdRes) > 0 {
          reply = append(reply, POsFromMetadataGroup(query.Nonce, mdRes)) }
      if len(tsRes)+len(statsRes) > 0 {
          reply = append(reply, POsFromTimeseriesGroup(query.Nonce, tsRes, statsRes)) }
      if len(changedRes) > 0 {
          reply = append(reply, POsFromChangedGroup(query.Nonce, changedRes)) }
      // if we do not have any results, send back an empty metadata payload
      if len(reply) == 0 {
          reply = append(reply, POsFromMetadataGroup(query.Nonce, mdRes)) }
      if err := a.iface.PublishSignal(signalURI, reply...); err != nil { ... } }\<close>
  A message is its sender and the payload object that \<open>GetOnePODF\<close> finds, if any; a
  msgpack payload object is what \<open>ValueInto\<close> makes of it, an error or the query.  The
  payload builders \<open>POsFromMetadataGroup\<close>, \<open>POsFromTimeseriesGroup\<close> and
  \<open>POsFromChangedGroup\<close> are not part of the sources: a reply payload is the call that
  builds it, with its arguments.  The result of \<open>listenQueries\<close> is the one call of
  \<open>PublishSignal\<close> it makes, if any; an error of that call is logged only.  Slicing the
  empty sender panics.
\<close>

record KeyValueQuery =
  Query :: string
  Nonce :: "32 word"

datatype PayloadObject =
    MsgPackPayloadObject "err + KeyValueQuery"
  | OtherPayloadObject

record SimpleMessage =
  From :: string
  GetOnePODF :: "PayloadObject option"

datatype ('ts, 'st, 'ch) ReplyPO =
    QueryError string "32 word" err
  | POsFromMetadataGroup "32 word" "MetadataGroup list"
  | POsFromTimeseriesGroup "32 word" "'ts list" "'st list"
  | POsFromChangedGroup "32 word" "'ch list"

datatype ('ts, 'st, 'ch) signal =
    NoSignal
  | PublishSignal string "('ts, 'st, 'ch) ReplyPO list"

fun nonceOf :: "('ts, 'st, 'ch) ReplyPO \<Rightarrow> 32 word" where
  "nonceOf (QueryError q n e) = n"
| "nonceOf (POsFromMetadataGroup n md) = n"
| "nonceOf (POsFromTimeseriesGroup n ts st) = n"
| "nonceOf (POsFromChangedGroup n ch) = n"

definition decodeQuery :: "PayloadObject \<Rightarrow> KeyValueQuery option" where
  "decodeQuery po =
     (case po of
        OtherPayloadObject \<Rightarrow> Some \<lparr>Query = [], Nonce = 0\<rparr>
      | MsgPackPayloadObject (Inl e) \<Rightarrow> None
      | MsgPackPayloadObject (Inr query) \<Rightarrow> Some query)"

definition assembleReply ::
  "32 word \<Rightarrow> MetadataGroup list \<Rightarrow> 'ts list \<Rightarrow> 'st list \<Rightarrow> 'ch list
     \<Rightarrow> ('ts, 'st, 'ch) ReplyPO list" where
  "assembleReply nonce mdRes tsRes statsRes changedRes =
     (let reply0 = [];
          reply1 = (if length mdRes > 0 then reply0 @ [POsFromMetadataGroup nonce mdRes]
                    else reply0);
          reply2 = (if length tsRes + length statsRes > 0
                    then reply1 @ [POsFromTimeseriesGroup nonce tsRes statsRes] else reply1);
          reply3 = (if length changedRes > 0 then reply2 @ [POsFromChangedGroup nonce changedRes]
                    else reply2)
      in if length reply3 = 0 then reply3 @ [POsFromMetadataGroup nonce mdRes] else reply3)"

definition signalURI :: "string \<Rightarrow> string" where
  "signalURI fromVK = butlast fromVK @ '',queries''"

definition listenQueries ::
  "('ts, 'st, 'ch) archiver \<Rightarrow> SimpleMessage \<Rightarrow> ('ts, 'st, 'ch) signal outcome" where
  "listenQueries a msg =
     (let fromVK = From msg
      in case GetOnePODF msg of
           None \<Rightarrow> Return NoSignal
         | Some po \<Rightarrow>
             (case decodeQuery po of
                None \<Rightarrow> Return NoSignal
              | Some query \<Rightarrow>
                  if length fromVK = 0 then Panic ''slice bounds out of range [:-1]''
                  else
                    (case HandleQuery a fromVK (Query query) of
                       Panic p \<Rightarrow> Panic p
                     | Return (mdRes, tsRes, statsRes, changedRes, Some e) \<Rightarrow>
                         Return (PublishSignal (signalURI fromVK)
                                   [QueryError (Query query) (Nonce query) e])
                     | Return (mdRes, tsRes, statsRes, changedRes, None) \<Rightarrow>
                         Return (PublishSignal (signalURI fromVK)
                                   (assembleReply (Nonce query) mdRes tsRes statsRes changedRes)))))"

subsection \<open>Runs of the query front end\<close>

text \<open>
  A parser that rejects the query \<open>select\<close>, reads \<open>select distinct\<close> as a distinct
  selection whose parameters are those of a tag selection, and reads every other query
  as a tag selection; evaluators that find nothing.
\<close>

definition tagQuery :: parsed where
  "tagQuery =
     \<lparr>Err = None, ErrPos = [], QueryType = SELECT_TYPE, Distinct = False,
      GetParams = IsTagParams \<lparr>Tags = [''uuid''], tagWhere = []\<rparr>, Data_Dtype = OTHER_DTYPE\<rparr>"

definition parser :: "string \<Rightarrow> parsed" where
  "parser query =
     (if query = ''select'' then tagQuery\<lparr>Err := Some ''syntax error'', ErrPos := ''6''\<rparr>
      else if query = ''select distinct'' then tagQuery\<lparr>Distinct := True\<rparr>
      else tagQuery)"

definition finds_nothing :: "(int, int, int) archiver" where
  "finds_nothing =
     \<lparr>Parse = parser,
      DistinctTag = (\<lambda>vk params. ([], None)),
      SelectTags = (\<lambda>vk params. ([], None)),
      SelectStatisticalData = (\<lambda>vk params. ([], None)),
      GetChangedRanges = (\<lambda>params. ([], None)),
      SelectDataRange = (\<lambda>vk params. ([], None)),
      SelectDataBefore = (\<lambda>vk params. ([], None)),
      SelectDataAfter = (\<lambda>vk params. ([], None))\<rparr>"

definition query_msg :: "string \<Rightarrow> string \<Rightarrow> SimpleMessage" where
  "query_msg vk q =
     \<lparr>From = vk, GetOnePODF = Some (MsgPackPayloadObject (Inr \<lparr>Query = q, Nonce = 42\<rparr>))\<rparr>"

definition garbled_msg :: SimpleMessage where
  "garbled_msg =
     \<lparr>From = ''key='', GetOnePODF = Some (MsgPackPayloadObject (Inl ''msgpack: invalid code''))\<rparr>"

section \<open>Theorems\<close>

subsection \<open>Prefix index\<close>

lemma scanPrefix_Nil: "bpfx \<noteq> [] \<Longrightarrow> scanPrefix bpfx [] m = Some m"
  by (subst scanPrefix.simps) (simp add: HasPrefix_def)

lemma scanPrefix_Cons:
  "scanPrefix bpfx (kv # rest) m =
     (if HasPrefix (fst kv) bpfx then scanPrefix bpfx rest (m @ [fst kv]) else Some m)"
  by (subst scanPrefix.simps) simp

lemma scanPrefix_takeWhile:
  "bpfx \<noteq> [] \<Longrightarrow>
     scanPrefix bpfx cur m = Some (m @ map fst (takeWhile (\<lambda>kv. HasPrefix (fst kv) bpfx) cur))"
  by (induction cur arbitrary: m) (simp_all add: scanPrefix_Nil scanPrefix_Cons)

lemma scanPrefix_Some_nonempty:
  assumes "scanPrefix bpfx cur m = Some y"
  shows "bpfx \<noteq> []"
proof (rule scanPrefix.raw_induct [where P = "\<lambda>bpfx cur m y. bpfx \<noteq> []", OF _ assms])
  fix scan :: "bytes \<Rightarrow> (bytes \<times> 'a) list \<Rightarrow> bytes list \<Rightarrow> bytes list option"
  fix bpfx cur matching y
  assume ih: "\<And>bpfx cur matching y. scan bpfx cur matching = Some y \<Longrightarrow> bpfx \<noteq> []"
    and body: "(case cur of
        [] \<Rightarrow> if HasPrefix [] bpfx then scan bpfx [] (matching @ [[]]) else Some matching
      | kv # rest \<Rightarrow>
          if HasPrefix (fst kv) bpfx then scan bpfx rest (matching @ [fst kv])
          else Some matching) = Some y"
  show "bpfx \<noteq> []"
  proof (cases cur)
    case Nil
    with body ih show ?thesis by (auto simp: HasPrefix_def split: if_splits)
  next
    case (Cons kv rest)
    with body ih show ?thesis by (auto simp: HasPrefix_def split: if_splits)
  qed
qed

lemma scanPrefix_empty_prefix: "scanPrefix [] cur m = None"
  using scanPrefix_Some_nonempty [of "[]" cur m] by (cases "scanPrefix [] cur m") auto

text \<open>
  With the empty prefix the loop never ends: at the end of the bucket the \<open>nil\<close> key
  still has the empty prefix.  So \<open>GetTimeseriesSuperstrings("")\<close>,
  \<open>GetMetadataSuperstrings("")\<close> and \<open>GetUUIDsFromURI("")\<close> do not return.
\<close>

lemma empty_prefix_never_returns:
  "GetTimeseriesSuperstrings [] store = None"
  "GetMetadataSuperstrings [] store = None"
  "GetUUIDsFromURI [] store = None"
  by (simp_all add: GetTimeseriesSuperstrings_def GetMetadataSuperstrings_def
      GetUUIDsFromURI_def scanPrefix_empty_prefix)

text \<open>
  In the byte order the keys with a given prefix form a segment that starts at the first
  key not below the prefix: a key below the prefix does not have it, and behind a key
  that is not below the prefix and does not have it no key has it.
\<close>

lemma HasPrefix_Nil [simp]: "HasPrefix k []"
  by (simp add: HasPrefix_def)

lemma HasPrefix_Cons:
  "HasPrefix k (a # p) \<longleftrightarrow> (\<exists>k2. k = a # k2 \<and> HasPrefix k2 p)"
  by (cases k) (auto simp: HasPrefix_def)

lemma below_prefix_not_HasPrefix: "k < p \<Longrightarrow> \<not> HasPrefix k p"
proof (induction p arbitrary: k)
  case Nil
  then show ?case by simp
next
  case (Cons a p)
  then show ?case by (cases k) (auto simp: HasPrefix_Cons)
qed

lemma behind_prefix_segment:
  "p \<le> k \<Longrightarrow> \<not> HasPrefix k p \<Longrightarrow> k \<le> k' \<Longrightarrow> \<not> HasPrefix k' p"
proof (induction p arbitrary: k k')
  case Nil
  then show ?case by simp
next
  case (Cons a p)
  show ?case
  proof (cases k)
    case Nil
    with Cons.prems show ?thesis by simp
  next
    case k: (Cons b k2)
    show ?thesis
    proof (cases k')
      case Nil
      then show ?thesis by (simp add: HasPrefix_Cons)
    next
      case k': (Cons c k2')
      show ?thesis
      proof
        assume "HasPrefix k' (a # p)"
        with k' have c: "c = a" and h: "HasPrefix k2' p" by (auto simp: HasPrefix_Cons)
        from Cons.prems(1,3) k k' c have b: "b = a" and le: "p \<le> k2" "k2 \<le> k2'"
          by auto
        from Cons.prems(2) k b have "\<not> HasPrefix k2 p" by (simp add: HasPrefix_Cons)
        from Cons.IH [OF le(1) this le(2)] h show False by simp
      qed
    qed
  qed
qed

lemma segment_is_filter:
  assumes "sorted (map fst ps)"
  shows "map fst (takeWhile (\<lambda>kv. HasPrefix (fst kv) p) (dropWhile (\<lambda>kv. fst kv < p) ps)) =
         filter (\<lambda>k. HasPrefix k p) (map fst ps)"
  using assms
proof (induction ps)
  case Nil
  then show ?case by simp
next
  case (Cons kv ps)
  then have sorted: "sorted (map fst ps)" and le: "\<forall>x \<in> set ps. fst kv \<le> fst x"
    by auto
  show ?case
  proof (cases "fst kv < p")
    case True
    with Cons.IH [OF sorted] show ?thesis by (simp add: below_prefix_not_HasPrefix)
  next
    case False
    then have ge: "p \<le> fst kv" by simp
    have dw: "dropWhile (\<lambda>kv. fst kv < p) ps = ps"
    proof (cases ps)
      case Nil
      then show ?thesis by simp
    next
      case (Cons x xs)
      with le have "fst kv \<le> fst x" by simp
      with ge have "\<not> fst x < p" by auto
      with Cons show ?thesis by simp
    qed
    show ?thesis
    proof (cases "HasPrefix (fst kv) p")
      case True
      with False Cons.IH [OF sorted] dw show ?thesis by simp
    next
      case no: False
      have "\<forall>x \<in> set ps. \<not> HasPrefix (fst x) p"
        using le behind_prefix_segment [OF ge no] by blast
      then have "filter (\<lambda>k. HasPrefix k p) (map fst ps) = []"
        by (simp add: filter_empty_conv)
      with False no show ?thesis by simp
    qed
  qed
qed

lemma put_pairs_keys: "fst ` set (put_pairs k v ps) \<subseteq> insert k (fst ` set ps)"
  by (induction ps) auto

lemma sorted_put_pairs: "sorted (map fst ps) \<Longrightarrow> sorted (map fst (put_pairs k v ps))"
proof (induction ps)
  case Nil
  then show ?case by simp
next
  case (Cons kv ps)
  then have sorted: "sorted (map fst ps)" and le: "\<forall>x \<in> set ps. fst kv \<le> fst x"
    by auto
  consider "k < fst kv" | "k = fst kv" | "fst kv < k" by force
  then show ?case
  proof cases
    case 1
    then have "\<forall>x \<in> set ps. k \<le> fst x" using le by force
    with 1 Cons.prems show ?thesis by simp
  next
    case 2
    with Cons.prems show ?thesis by simp
  next
    case 3
    have "\<forall>x \<in> set (put_pairs k v ps). fst kv \<le> fst x"
    proof
      fix x assume "x \<in> set (put_pairs k v ps)"
      then have "fst x \<in> insert k (fst ` set ps)" using put_pairs_keys [of k v ps] by blast
      with 3 le show "fst kv \<le> fst x" by auto
    qed
    moreover from 3 have "\<not> k < fst kv" and "k \<noteq> fst kv" by auto
    ultimately show ?thesis using Cons.IH [OF sorted] by simp
  qed
qed

text \<open>
  The timeseries bucket is keyed by the URI: after a successful \<open>AddTimeseriesURI\<close> the
  keys are still in order, and for a non-empty prefix \<open>GetTimeseriesSuperstrings\<close>
  returns exactly the stored URIs that have the prefix.
\<close>

lemma AddTimeseriesURI_sorted:
  "sorted (map fst (pairs (tsBucket store))) \<Longrightarrow>
     sorted (map fst (pairs (tsBucket (snd (AddTimeseriesURI uri store)))))"
  by (simp add: AddTimeseriesURI_def NextSequence_def Put_def sorted_put_pairs)

lemma GetTimeseriesSuperstrings_exact:
  assumes "pfx \<noteq> []" and "sorted (map fst (pairs (tsBucket store)))"
  shows "GetTimeseriesSuperstrings pfx store =
           Some (filter (\<lambda>k. HasPrefix k pfx) (map fst (pairs (tsBucket store))), None)"
  using assms
  by (simp add: GetTimeseriesSuperstrings_def Seek_def scanPrefix_takeWhile segment_is_filter)

text \<open>
  The metadata bucket is keyed by the sequence number: for a non-empty prefix
  \<open>GetMetadataSuperstrings\<close> returns keys of the bucket, never its values, the URIs.
\<close>

lemma GetMetadataSuperstrings_keys:
  assumes "pfx \<noteq> []" and "GetMetadataSuperstrings pfx store = Some (matching, e)"
  shows "set matching \<subseteq> fst ` set (pairs (mdBucket store))"
proof -
  from assms have "matching =
      map fst (takeWhile (\<lambda>kv. HasPrefix (fst kv) pfx) (Seek pfx (mdBucket store)))"
    by (simp add: GetMetadataSuperstrings_def scanPrefix_takeWhile)
  then show ?thesis
    by (auto simp: Seek_def dest!: set_takeWhileD set_dropWhileD)
qed

text \<open>
  \<open>AddMetadataURI\<close> with a URI that \<open>Put\<close> accepts always takes a new sequence number:
  the bucket is never left as it was.
\<close>

lemma AddMetadataURI_changes_bucket:
  assumes "length uri \<le> MaxValueSize"
  shows "fst (AddMetadataURI uri store) = None"
    and "sequence (mdBucket (snd (AddMetadataURI uri store))) = sequence (mdBucket store) + 1"
    and "mdBucket (snd (AddMetadataURI uri store)) \<noteq> mdBucket store"
proof -
  have key: "length (itob n) = 8" for n by (simp add: itob_def)
  show a: "fst (AddMetadataURI uri store) = None"
    and b: "sequence (mdBucket (snd (AddMetadataURI uri store))) = sequence (mdBucket store) + 1"
    using assms key by (simp_all add: AddMetadataURI_def NextSequence_def Put_def MaxKeySize_def)
  show "mdBucket (snd (AddMetadataURI uri store)) \<noteq> mdBucket store"
  proof
    assume "mdBucket (snd (AddMetadataURI uri store)) = mdBucket store"
    with b have "sequence (mdBucket store) = sequence (mdBucket store) + 1" by simp
    then show False by simp
  qed
qed

text \<open>
  The loop of \<open>GetUUIDsFromURI\<close>: when every URI has a sub-bucket the result is the
  union of the sub-buckets, each UUID once; a URI without a sub-bucket cuts the loop off,
  whatever follows it.
\<close>

lemma set_fold_insert: "set (fold List.insert xs found) = set xs \<union> set found"
  by (induction xs arbitrary: found) auto

lemma distinct_fold_insert: "distinct found \<Longrightarrow> distinct (fold List.insert xs found)"
  by (induction xs arbitrary: found) auto

lemma collectUUIDs_union:
  "list_all (\<lambda>suri. Bucket b suri \<noteq> None) superURIs \<Longrightarrow>
     set (collectUUIDs b superURIs found) =
       set found \<union> (\<Union>suri \<in> set superURIs. snd ` set (pairs (the (Bucket b suri))))"
proof (induction superURIs arbitrary: found)
  case Nil
  then show ?case by simp
next
  case (Cons suri superURIs)
  then obtain ub where ub: "Bucket b suri = Some ub"
    and rest: "list_all (\<lambda>suri. Bucket b suri \<noteq> None) superURIs"
    by auto
  show ?case
    using Cons.IH [OF rest, of "fold List.insert (map snd (pairs ub)) found"] ub
    by (simp add: set_fold_insert Un_assoc Un_commute [of "snd ` set (pairs ub)" "set found"])
qed

lemma collectUUIDs_distinct: "distinct found \<Longrightarrow> distinct (collectUUIDs b superURIs found)"
  by (induction superURIs arbitrary: found) (auto simp: distinct_fold_insert split: option.splits)

lemma collectUUIDs_cut_off:
  "Bucket b suri = None \<Longrightarrow>
     collectUUIDs b (before @ suri # behind) found = collectUUIDs b before found"
  by (induction before arbitrary: found) (auto split: option.splits)

lemmas prefix_eval =
  AddMetadataURI_def AddTimeseriesURI_def AddUUIDURIMapping_def NewPrefixStore_def
  GetMetadataSuperstrings_def GetTimeseriesSuperstrings_def GetUUIDsFromURI_def
  CreateBucketIfNotExists_def Bucket_def NextSequence_def Put_def emptyBucket_def
  MaxKeySize_def MaxValueSize_def Seek_def HasPrefix_def itob_def bytes_of_def
  scanPrefix_Nil scanPrefix_Cons

lemma md_once_eq:
  "md_once = \<lparr>tsBucket = emptyBucket,
               mdBucket = \<lparr>pairs = [([0, 0, 0, 0, 0, 0, 0, 1], bytes_of ''a/b'')], sequence = 1\<rparr>,
               uuidBucket = emptyBucket\<rparr>"
  by (simp add: md_once_def prefix_eval)

lemma md_twice_eq:
  "md_twice = \<lparr>tsBucket = emptyBucket,
                mdBucket = \<lparr>pairs = [([0, 0, 0, 0, 0, 0, 0, 1], bytes_of ''a/b''),
                                      ([0, 0, 0, 0, 0, 0, 0, 2], bytes_of ''a/b'')],
                            sequence = 2\<rparr>,
                uuidBucket = emptyBucket\<rparr>"
  by (simp add: md_twice_def md_once_eq prefix_eval)

lemma ts_two_eq:
  "ts_two = \<lparr>tsBucket = \<lparr>pairs = [(bytes_of ''a/b'', [0, 0, 0, 0, 0, 0, 0, 1]),
                                   (bytes_of ''a/c'', [0, 0, 0, 0, 0, 0, 0, 2])],
                         sequence = 2\<rparr>,
              mdBucket = emptyBucket,
              uuidBucket = \<lparr>pairs = [(bytes_of ''a/c'',
                                       \<lparr>pairs = [([0, 0, 0, 0, 0, 0, 0, 1], uuid_c)],
                                        sequence = 1\<rparr>)],
                           sequence = 0\<rparr>\<rparr>"
  by (simp add: ts_two_def uuid_c_def prefix_eval)

text \<open>
  C2.  After \<open>AddMetadataURI("a/b")\<close> the metadata bucket holds the pair
  (sequence number 1, \<open>a/b\<close>).  \<open>GetMetadataSuperstrings("a")\<close> scans the keys and returns
  nothing, although the stored URI \<open>a/b\<close> has the prefix \<open>a\<close>; and for the one-byte
  prefix 0 it returns the key, the eight bytes of the sequence number, which is no stored
  URI.  \<open>GetTimeseriesSuperstrings\<close>, whose bucket is keyed by the URI, finds \<open>a/b\<close> and
  \<open>a/c\<close> under the prefix \<open>a\<close>.
\<close>

theorem GetMetadataSuperstrings_scans_sequence_keys:
  "pairs (mdBucket md_once) = [(itob 1, bytes_of ''a/b'')] \<and>
   HasPrefix (bytes_of ''a/b'') (bytes_of ''a'') \<and>
   GetMetadataSuperstrings (bytes_of ''a'') md_once = Some ([], None) \<and>
   GetMetadataSuperstrings [0] md_once = Some ([itob 1], None) \<and>
   GetTimeseriesSuperstrings (bytes_of ''a'') ts_two =
     Some ([bytes_of ''a/b'', bytes_of ''a/c''], None)"
  by (simp add: md_once_eq ts_two_eq prefix_eval)

text \<open>
  C9.  A second \<open>AddMetadataURI("a/b")\<close> is not ignored: it takes the next sequence
  number and stores the URI once more under it, so the persisted bucket changes from one
  entry to two.
\<close>

theorem AddMetadataURI_stores_again:
  "fst (AddMetadataURI (bytes_of ''a/b'') md_once) = None \<and>
   pairs (mdBucket md_once) = [(itob 1, bytes_of ''a/b'')] \<and>
   pairs (mdBucket md_twice) = [(itob 1, bytes_of ''a/b''), (itob 2, bytes_of ''a/b'')] \<and>
   mdBucket md_twice \<noteq> mdBucket md_once"
  by (simp add: md_once_eq md_twice_eq prefix_eval)

text \<open>
  C1.  With the timeseries URIs \<open>a/b\<close> and \<open>a/c\<close> stored and a UUID registered for
  \<open>a/c\<close> only, both URIs are superstrings of \<open>a\<close>, and the sub-bucket of \<open>a/c\<close> holds
  \<open>uuid_c\<close>.  \<open>GetUUIDsFromURI("a")\<close> meets \<open>a/b\<close> first, finds no sub-bucket and
  returns at once: its result is empty and the UUID of \<open>a/c\<close> is omitted.  Asked for
  \<open>a/c\<close> itself it returns the UUID.
\<close>

theorem GetUUIDsFromURI_stops_at_missing_bucket:
  "GetTimeseriesSuperstrings (bytes_of ''a'') ts_two =
     Some ([bytes_of ''a/b'', bytes_of ''a/c''], None) \<and>
   Bucket (uuidBucket ts_two) (bytes_of ''a/b'') = None \<and>
   Bucket (uuidBucket ts_two) (bytes_of ''a/c'') =
     Some \<lparr>pairs = [(itob 1, uuid_c)], sequence = 1\<rparr> \<and>
   GetUUIDsFromURI (bytes_of ''a'') ts_two = Some ([], None) \<and>
   GetUUIDsFromURI (bytes_of ''a/c'') ts_two = Some ([uuid_c], None)"
  by (simp add: ts_two_eq prefix_eval)

subsection \<open>Metadata store\<close>

lemma Select_unit_lookup:
  "map_of (filter (\<lambda>kv. keeps [(''UnitofTime'', Suc 0)] (fst kv)) d) ''UnitofTime'' =
     map_of d ''UnitofTime''"
  by (induction d) (auto simp: keeps_def)

text \<open>
  C6, counterexample.  The collection holds a record of \<open>uuid_c\<close> with the unit 3 stored as
  a 64-bit integer.  \<open>GetUnitOfTime\<close> does not return the stored unit: it fails with the
  invalid-unit error (and the seconds unit, here 4).
\<close>

theorem GetUnitOfTime_int64_counterexample:
  "GetUnitOfTime 4 unit_int64 ''vk'' uuid_c = Return (4, Some errInvalidUnit)"
  by (simp add: GetUnitOfTime_def unit_int64_def Find_def Select_def Count_def One_def
      referencesUUID_def keeps_def)

lemma GetUnitOfTime_first_doc:
  assumes "countErr m = None" and "fetchErr m = None"
  shows "GetUnitOfTime UOT_S m VK uuid =
     (case filter (referencesUUID uuid) (metadata m) of
        [] \<Rightarrow> Return (UOT_S, Some errNoStream)
      | d # _ \<Rightarrow>
          (case map_of d ''UnitofTime'' of
             None \<Rightarrow> Return (UOT_S, None)
           | Some (DInt u) \<Rightarrow> Return (if u = 0 then UOT_S else u, None)
           | Some _ \<Rightarrow> Return (UOT_S, Some errInvalidUnit)))"
proof (cases "filter (referencesUUID uuid) (metadata m)")
  case Nil
  with assms show ?thesis
    by (simp add: GetUnitOfTime_def Find_def Select_def Count_def)
next
  case (Cons d ds)
  with assms have "GetUnitOfTime UOT_S m VK uuid =
     (case map_of d ''UnitofTime'' of
        None \<Rightarrow> Return (UOT_S, None)
      | Some entry \<Rightarrow>
          (case entry of
             DInt uotInt \<Rightarrow> Return (if uotInt = 0 then UOT_S else uotInt, None)
           | _ \<Rightarrow> Return (UOT_S, Some errInvalidUnit)))"
    by (simp add: GetUnitOfTime_def Find_def Select_def Count_def One_def Select_unit_lookup)
  with Cons show ?thesis
    by (simp split: option.splits dyn.splits)
qed

lemma errNoStream_neq_errInvalidUnit: "errInvalidUnit \<noteq> errNoStream"
  by (simp add: errInvalidUnit_def errNoStream_def)

text \<open>
  C6, amended.  When the store answers the count and the fetch: \<open>GetUnitOfTime\<close> fails
  with the not-found error exactly when no document references the UUID.  Otherwise it
  looks at the first document \<open>d\<close> that references it, and returns the seconds unit when
  \<open>d\<close> has no \<open>UnitofTime\<close> or stores the \<open>int\<close> 0, the stored unit when it is a non-zero
  \<open>int\<close>, and the invalid-unit error when the stored value is not an \<open>int\<close>.
\<close>

theorem GetUnitOfTime_cases:
  assumes "countErr m = None" and "fetchErr m = None"
  shows "((\<exists>uot. GetUnitOfTime UOT_S m VK uuid = Return (uot, Some errNoStream)) \<longleftrightarrow>
            filter (referencesUUID uuid) (metadata m) = []) \<and>
         (\<forall>d ds. filter (referencesUUID uuid) (metadata m) = d # ds \<longrightarrow>
            (map_of d ''UnitofTime'' = None \<longrightarrow>
               GetUnitOfTime UOT_S m VK uuid = Return (UOT_S, None)) \<and>
            (map_of d ''UnitofTime'' = Some (DInt 0) \<longrightarrow>
               GetUnitOfTime UOT_S m VK uuid = Return (UOT_S, None)) \<and>
            (\<forall>u. map_of d ''UnitofTime'' = Some (DInt u) \<and> u \<noteq> 0 \<longrightarrow>
               GetUnitOfTime UOT_S m VK uuid = Return (u, None)) \<and>
            (\<forall>v. map_of d ''UnitofTime'' = Some v \<and> (\<forall>u. v \<noteq> DInt u) \<longrightarrow>
               GetUnitOfTime UOT_S m VK uuid = Return (UOT_S, Some errInvalidUnit)))"
proof -
  note first = GetUnitOfTime_first_doc [OF assms, of UOT_S VK uuid]
  have a: "(\<exists>uot. GetUnitOfTime UOT_S m VK uuid = Return (uot, Some errNoStream)) \<longleftrightarrow>
            filter (referencesUUID uuid) (metadata m) = []"
    using first errNoStream_neq_errInvalidUnit
    by (auto split: list.splits option.splits dyn.splits)
  have b: "\<forall>d ds. filter (referencesUUID uuid) (metadata m) = d # ds \<longrightarrow>
            (map_of d ''UnitofTime'' = None \<longrightarrow>
               GetUnitOfTime UOT_S m VK uuid = Return (UOT_S, None)) \<and>
            (map_of d ''UnitofTime'' = Some (DInt 0) \<longrightarrow>
               GetUnitOfTime UOT_S m VK uuid = Return (UOT_S, None)) \<and>
            (\<forall>u. map_of d ''UnitofTime'' = Some (DInt u) \<and> u \<noteq> 0 \<longrightarrow>
               GetUnitOfTime UOT_S m VK uuid = Return (u, None)) \<and>
            (\<forall>v. map_of d ''UnitofTime'' = Some v \<and> (\<forall>u. v \<noteq> DInt u) \<longrightarrow>
               GetUnitOfTime UOT_S m VK uuid = Return (UOT_S, Some errInvalidUnit))"
    using first by (auto split: dyn.splits)
  from a b show ?thesis by blast
qed

text \<open>
  The theorem on a collection whose record of \<open>uuid_c\<close> stores the \<open>int\<close> 3: the unit 3
  is returned for \<open>uuid_c\<close>, and the empty UUID, which no record references, is not found.
\<close>

theorem GetUnitOfTime_cases_witness:
  "countErr unit_int = None \<and> fetchErr unit_int = None \<and>
   GetUnitOfTime 4 unit_int ''vk'' uuid_c = Return (3, None) \<and>
   (\<exists>uot. GetUnitOfTime 4 unit_int ''vk'' [] = Return (uot, Some errNoStream))"
proof -
  have c: "countErr unit_int = None" and f: "fetchErr unit_int = None"
    by (simp_all add: unit_int_def)
  show ?thesis
    using c f GetUnitOfTime_cases [OF c f, of 4 "''vk''" uuid_c]
      GetUnitOfTime_cases [OF c f, of 4 "''vk''" "[]"]
    by (simp add: unit_int_def referencesUUID_def uuid_c_def)
qed

text \<open>
  C3.  The collection holds one \<open>Building\<close> record.  For the empty tag list and the empty
  where clause the code selects that record without its \<open>_id\<close> and logs it, and then
  returns the \<open>nil\<close> group and no error: the projection is not returned.  The same holds
  with the tag \<open>Value\<close> and the clause \<open>Key = "Building"\<close>.
\<close>

theorem GetMetadata_returns_nil:
  "selectedMetadata equalsAll building [] [] =
     Inr [[(''Key'', DString ''Building''), (''Value'', DString ''Soda''),
           (''SrcURI'', DString ''scratch'')]] \<and>
   GetMetadata equalsAll building ''vk'' [] [] = (None, None) \<and>
   selectedMetadata equalsAll building [''Value''] [(''Key'', DString ''Building'')] =
     Inr [[(''Value'', DString ''Soda'')]] \<and>
   GetMetadata equalsAll building ''vk'' [''Value''] [(''Key'', DString ''Building'')] =
     (None, None)"
  by (simp add: GetMetadata_def selectedMetadata_def selectTags_def building_def equalsAll_def
      Find_def Select_def All_def keeps_def)

subsection \<open>Timeseries adapter\<close>

text \<open>
  C7, counterexample.  The stream exists and the engine refuses the insert:
  \<open>AddReadings\<close> returns the error, and the completed-writes counter has still gone
  from 0 to 1.
\<close>

theorem AddReadings_failed_insert_counterexample:
  "returned (AddReadings refusing one_reading world0) = Some ''insert failed'' \<and>
   completedWrites world0 = 0 \<and>
   completedWrites (after (AddReadings refusing one_reading world0)) = 1"
  by (simp add: AddReadings_def getStream_def refusing_def accepting_def one_reading_def
      world0_def)

text \<open>
  C7, amended.  A call that resolves the stream reaches the insert: the insert runs with
  the current-writes counter one above its value at the call, and when the call has
  returned the current-writes counter is back at that value and the completed-writes
  counter is one higher, whether the insert failed or not; the call returns the result
  of the insert.  A call that fails to resolve the stream does not reach the insert,
  returns an error and changes neither counter.
\<close>

theorem AddReadings_counters:
  "(snd (fst (getStream eng (tsUUID readings) (streamCache w))) = None \<longrightarrow>
      (\<exists>w1. during (AddReadings eng readings w) = Some w1 \<and>
            currentWrites w1 = currentWrites w + 1 \<and>
            completedWrites w1 = completedWrites w) \<and>
      currentWrites (after (AddReadings eng readings w)) = currentWrites w \<and>
      completedWrites (after (AddReadings eng readings w)) = completedWrites w + 1 \<and>
      returned (AddReadings eng readings w) =
        stream_InsertF eng (fst (fst (getStream eng (tsUUID readings) (streamCache w))))
          (map (\<lambda>rd. (rTime rd, rValue rd)) (Records readings))) \<and>
   (snd (fst (getStream eng (tsUUID readings) (streamCache w))) \<noteq> None \<longrightarrow>
      during (AddReadings eng readings w) = None \<and>
      returned (AddReadings eng readings w) \<noteq> None \<and>
      currentWrites (after (AddReadings eng readings w)) = currentWrites w \<and>
      completedWrites (after (AddReadings eng readings w)) = completedWrites w)"
  by (cases "getStream eng (tsUUID readings) (streamCache w)")
     (auto simp: AddReadings_def Let_def split: prod.splits option.splits)

text \<open>
  The theorem on a successful insert, on a refused insert, and on a stream the engine
  does not know (the empty UUID).
\<close>

theorem AddReadings_counters_witness:
  "snd (fst (getStream accepting (tsUUID one_reading) (streamCache world0))) = None \<and>
   returned (AddReadings accepting one_reading world0) = None \<and>
   completedWrites (after (AddReadings accepting one_reading world0)) = 1 \<and>
   currentWrites (after (AddReadings accepting one_reading world0)) = 0 \<and>
   completedWrites (after (AddReadings refusing one_reading world0)) = 1 \<and>
   snd (fst (getStream accepting (tsUUID (one_reading\<lparr>tsUUID := []\<rparr>)) (streamCache world0)))
     \<noteq> None \<and>
   completedWrites (after (AddReadings accepting (one_reading\<lparr>tsUUID := []\<rparr>) world0)) = 0"
  using AddReadings_counters [of accepting one_reading world0]
    AddReadings_counters [of refusing one_reading world0]
    AddReadings_counters [of accepting "one_reading\<lparr>tsUUID := []\<rparr>" world0]
  by (simp add: getStream_def refusing_def accepting_def one_reading_def world0_def uuid_c_def)

subsection \<open>Query front end\<close>

lemmas archiver_eval =
  listenQueries_def HandleQuery_def decodeQuery_def assembleReply_def signalURI_def
  finds_nothing_def parser_def tagQuery_def query_msg_def garbled_msg_def parseError_def

lemma assembleReply_nonce:
  "po \<in> set (assembleReply nonce mdRes tsRes statsRes changedRes) \<Longrightarrow> nonceOf po = nonce"
  by (auto simp: assembleReply_def Let_def split: if_splits)

lemma assembleReply_nonempty: "assembleReply nonce mdRes tsRes statsRes changedRes \<noteq> []"
  by (simp add: assembleReply_def Let_def)

text \<open>
  C5, counterexample.  The message carries a msgpack payload object that does not
  unmarshal into a query.  \<open>listenQueries\<close> logs and returns: nothing is published, no
  \<open>QueryError\<close> either.
\<close>

theorem listenQueries_garbled_counterexample:
  "listenQueries finds_nothing garbled_msg = Return NoSignal"
  by (simp add: archiver_eval)

text \<open>
  C5, amended.  Take a message from a non-empty key whose msgpack payload unmarshals into
  the query \<open>q\<close>.  When the evaluation fails with the error \<open>e\<close>, the archiver publishes
  one payload, the \<open>QueryError\<close> with the query string, the nonce and \<open>e\<close>, on the signal
  URI made of the key without its last character and \<open>,queries\<close>; a parse error is such
  a failure, with the formatted parse error as \<open>e\<close>.  When the evaluation succeeds,
  the archiver publishes on the same URI a non-empty list of payloads, each built with
  the nonce of \<open>q\<close>.  A msgpack payload that does not unmarshal gets no reply.
\<close>

theorem listenQueries_replies:
  "(From msg \<noteq> [] \<and> GetOnePODF msg = Some (MsgPackPayloadObject (Inr q)) \<and>
      HandleQuery a (From msg) (Query q) = Return (mdRes, tsRes, statsRes, changedRes, Some e) \<longrightarrow>
        listenQueries a msg =
          Return (PublishSignal (butlast (From msg) @ '',queries'')
                    [QueryError (Query q) (Nonce q) e])) \<and>
   (From msg \<noteq> [] \<and> GetOnePODF msg = Some (MsgPackPayloadObject (Inr q)) \<and>
      Err (Parse a (Query q)) = Some pe \<longrightarrow>
        listenQueries a msg =
          Return (PublishSignal (butlast (From msg) @ '',queries'')
                    [QueryError (Query q) (Nonce q)
                       (parseError pe (Query q) (ErrPos (Parse a (Query q))))])) \<and>
   (From msg \<noteq> [] \<and> GetOnePODF msg = Some (MsgPackPayloadObject (Inr q)) \<and>
      HandleQuery a (From msg) (Query q) = Return (mdRes, tsRes, statsRes, changedRes, None) \<longrightarrow>
        (\<exists>reply. listenQueries a msg =
                   Return (PublishSignal (butlast (From msg) @ '',queries'') reply) \<and>
                 reply \<noteq> [] \<and> list_all (\<lambda>po. nonceOf po = Nonce q) reply)) \<and>
   (GetOnePODF msg = Some (MsgPackPayloadObject (Inl ue)) \<longrightarrow>
        listenQueries a msg = Return NoSignal)"
proof -
  have failed: "listenQueries a msg =
          Return (PublishSignal (butlast (From msg) @ '',queries'')
                    [QueryError (Query q) (Nonce q) e])"
    if "From msg \<noteq> []" "GetOnePODF msg = Some (MsgPackPayloadObject (Inr q))"
       "HandleQuery a (From msg) (Query q) = Return (mdRes, tsRes, statsRes, changedRes, Some e)"
    for e mdRes tsRes statsRes changedRes
    using that by (simp add: listenQueries_def decodeQuery_def signalURI_def)
  have parse: "HandleQuery a (From msg) (Query q) =
          Return ([], [], [], [], Some (parseError pe (Query q) (ErrPos (Parse a (Query q)))))"
    if "Err (Parse a (Query q)) = Some pe"
    using that by (simp add: HandleQuery_def)
  have ok: "\<exists>reply. listenQueries a msg =
                   Return (PublishSignal (butlast (From msg) @ '',queries'') reply) \<and>
                 reply \<noteq> [] \<and> list_all (\<lambda>po. nonceOf po = Nonce q) reply"
    if "From msg \<noteq> []" "GetOnePODF msg = Some (MsgPackPayloadObject (Inr q))"
       "HandleQuery a (From msg) (Query q) = Return (mdRes, tsRes, statsRes, changedRes, None)"
    using that assembleReply_nonempty [of "Nonce q" mdRes tsRes statsRes changedRes]
      assembleReply_nonce [of _ "Nonce q" mdRes tsRes statsRes changedRes]
    by (simp add: listenQueries_def decodeQuery_def signalURI_def list_all_iff)
  have garbled: "listenQueries a msg = Return NoSignal"
    if "GetOnePODF msg = Some (MsgPackPayloadObject (Inl ue))"
    using that by (simp add: listenQueries_def decodeQuery_def)
  from failed parse ok garbled show ?thesis by blast
qed

text \<open>
  The theorem on the key \<open>key=\<close> and the nonce 42: the query \<open>select\<close>, which the
  parser rejects, is answered by a \<open>QueryError\<close> on \<open>key,queries\<close>; the query
  \<open>select uuid\<close>, which finds nothing, by one metadata payload with the nonce 42.
\<close>

theorem listenQueries_replies_witness:
  "From (query_msg ''key='' ''select'') \<noteq> [] \<and>
   GetOnePODF (query_msg ''key='' ''select'') =
     Some (MsgPackPayloadObject (Inr \<lparr>Query = ''select'', Nonce = 42\<rparr>)) \<and>
   Err (Parse finds_nothing ''select'') = Some ''syntax error'' \<and>
   listenQueries finds_nothing (query_msg ''key='' ''select'') =
     Return (PublishSignal ''key,queries''
       [QueryError ''select'' 42 (parseError ''syntax error'' ''select'' ''6'')]) \<and>
   HandleQuery finds_nothing ''key='' ''select uuid'' = Return ([], [], [], [], None) \<and>
   listenQueries finds_nothing (query_msg ''key='' ''select uuid'') =
     Return (PublishSignal ''key,queries'' [POsFromMetadataGroup 42 []]) \<and>
   listenQueries finds_nothing garbled_msg = Return NoSignal"
  using listenQueries_replies [of "query_msg ''key='' ''select''"
      "\<lparr>Query = ''select'', Nonce = 42\<rparr>" finds_nothing "[]" "[]" "[]" "[]"
      "parseError ''syntax error'' ''select'' ''6''" "''syntax error''"
      "''msgpack: invalid code''"]
    listenQueries_replies [of "query_msg ''key='' ''select uuid''"
      "\<lparr>Query = ''select uuid'', Nonce = 42\<rparr>" finds_nothing "[]" "[]" "[]" "[]"
      "''none''" "''none''" "''none''"]
    listenQueries_replies [of garbled_msg
      "\<lparr>Query = ''select uuid'', Nonce = 42\<rparr>" finds_nothing "[]" "[]" "[]" "[]"
      "''none''" "''none''" "''msgpack: invalid code''"]
  by (simp add: archiver_eval)

text \<open>
  C10.  Take a message from a non-empty key whose payload is read as the query \<open>q\<close>.
  When the evaluation of \<open>q\<close> succeeds with no metadata, timeseries, statistics or
  changed-range results, the archiver publishes exactly one payload: the metadata payload
  built from the nonce of \<open>q\<close> and the empty list of groups.
\<close>

theorem listenQueries_empty_result:
  assumes "From msg \<noteq> []"
    and "GetOnePODF msg = Some po"
    and "decodeQuery po = Some q"
    and "HandleQuery a (From msg) (Query q) = Return ([], [], [], [], None)"
  shows "listenQueries a msg =
           Return (PublishSignal (butlast (From msg) @ '',queries'')
                     [POsFromMetadataGroup (Nonce q) []])"
  using assms by (simp add: listenQueries_def signalURI_def assembleReply_def)

theorem listenQueries_empty_result_witness:
  "From (query_msg ''key='' ''select uuid'') \<noteq> [] \<and>
   GetOnePODF (query_msg ''key='' ''select uuid'') =
     Some (MsgPackPayloadObject (Inr \<lparr>Query = ''select uuid'', Nonce = 42\<rparr>)) \<and>
   decodeQuery (MsgPackPayloadObject (Inr \<lparr>Query = ''select uuid'', Nonce = 42\<rparr>)) =
     Some \<lparr>Query = ''select uuid'', Nonce = 42\<rparr> \<and>
   HandleQuery finds_nothing ''key='' ''select uuid'' = Return ([], [], [], [], None) \<and>
   listenQueries finds_nothing (query_msg ''key='' ''select uuid'') =
     Return (PublishSignal ''key,queries'' [POsFromMetadataGroup 42 []])"
proof -
  have f: "From (query_msg ''key='' ''select uuid'') \<noteq> []"
    by (simp add: query_msg_def)
  have g: "GetOnePODF (query_msg ''key='' ''select uuid'') =
     Some (MsgPackPayloadObject (Inr \<lparr>Query = ''select uuid'', Nonce = 42\<rparr>))"
    by (simp add: query_msg_def)
  have d: "decodeQuery (MsgPackPayloadObject (Inr \<lparr>Query = ''select uuid'', Nonce = 42\<rparr>)) =
     Some \<lparr>Query = ''select uuid'', Nonce = 42\<rparr>"
    by (simp add: decodeQuery_def)
  have h: "HandleQuery finds_nothing (From (query_msg ''key='' ''select uuid''))
             (Query \<lparr>Query = ''select uuid'', Nonce = 42\<rparr>) = Return ([], [], [], [], None)"
    by (simp add: archiver_eval)
  from listenQueries_empty_result [OF f g d h] f g d h show ?thesis
    by (simp add: query_msg_def)
qed

text \<open>
  C4.  Four inputs on which the code panics.  \<open>AddAnnotations\<close> on an existing stream with
  the annotation \<open>Unit\<close> set to the integer 5 fails the assertion \<open>v.(string)\<close>.
  \<open>GetDataUUID\<close> on a UUID that has no stream indexes the empty list of streams.
  \<open>listenQueries\<close> on a query message with the empty sender key slices \<open>fromVK[:-1]\<close>.
  \<open>HandleQuery\<close> on a distinct selection whose parameters are not \<open>DistinctParams\<close>
  fails the assertion on \<open>GetParams()\<close>, and \<open>listenQueries\<close> with it.
\<close>

theorem runtime_panics:
  "AddAnnotations (\<lambda>k. k) accepting uuid_c [(''Unit'', DInt 5)] Map.empty =
     Panic ''interface conversion: interface {} is not string'' \<and>
   uuidsToStreams accepting [[]] Map.empty = ([], Map.empty) \<and>
   GetDataUUID accepting [] 0 10 1 Map.empty = Panic ''index out of range [0] with length 0'' \<and>
   listenQueries finds_nothing (query_msg [] ''select uuid'') =
     Panic ''slice bounds out of range [:-1]'' \<and>
   HandleQuery finds_nothing ''key='' ''select distinct'' = Panic assertionPanic \<and>
   listenQueries finds_nothing (query_msg ''key='' ''select distinct'') = Panic assertionPanic"
  by (simp add: archiver_eval AddAnnotations_def GetDataUUID_def getStream_def accepting_def
      uuid_c_def)

subsection \<open>ValidTimestamp\<close>




end
